theory Spec2Isabelle
  imports Main "HOL-Library.Multiset"
begin

section \<open>Python values and errors\<close>

text \<open>
  The crawler (\<^verbatim>\<open>spiders/demospider.py\<close>), its item pipelines
  (\<^verbatim>\<open>pipelines.py\<close>) and the analytics API (\<^verbatim>\<open>main.py\<close>)
  are embedded as HOL functions. A Python \<^verbatim>\<open>str\<close> is a \<^typ>\<open>string\<close>
  whose characters are read as code points below 256; \<^verbatim>\<open>None\<close>-or-\<^verbatim>\<open>str\<close>
  is a \<^typ>\<open>string option\<close>. Every exception the code can raise is a value.
\<close>

datatype py_error =
    KeyError
  | IndexError
  | ValueError
  | TypeError
  | AttributeError
  | ClassifierError
  | DatabaseError

text \<open>The values a scraped item (a Python \<^verbatim>\<open>dict\<close>) holds.\<close>

datatype pyval = PNone | PStr string | PInt int

type_synonym item = "string \<rightharpoonup> pyval"

text \<open>Python's truth test on an optional string: \<^verbatim>\<open>None\<close> and \<^verbatim>\<open>''\<close> are false.\<close>

fun truthy :: "string option \<Rightarrow> bool" where
  "truthy None = False"
| "truthy (Some s) = (s \<noteq> [])"

fun opt_pyval :: "string option \<Rightarrow> pyval" where
  "opt_pyval None = PNone"
| "opt_pyval (Some s) = PStr s"

section \<open>The ID generator (\<^verbatim>\<open>demospider.py\<close>, lines 19--35)\<close>

text \<open>
  \<^verbatim>\<open>str.split(sep)\<close> for a one-character separator: the pieces between the
  occurrences of the separator, one more piece than there are separators.
\<close>

fun split_char :: "char \<Rightarrow> string \<Rightarrow> string list" where
  "split_char c [] = [[]]"
| "split_char c (x # xs) =
     (if x = c then [] # split_char c xs
      else (case split_char c xs of
              [] \<Rightarrow> [[x]]
            | w # ws \<Rightarrow> (x # w) # ws))"

text \<open>
  \<^verbatim>\<open>extract_thread_id\<close>. The path of the URL comes from \<^verbatim>\<open>urllib.parse.urlparse\<close>,
  a library function taken as the parameter \<open>urlparse_path\<close>.
  \<^verbatim>\<open>
  parsed = urlparse(url)
  path_parts = parsed.path.split('.')
  if len(path_parts) > 1:
      return path_parts[-1]
  return None
  \<close>
\<close>

definition extract_thread_id :: "(string \<Rightarrow> string) \<Rightarrow> string \<Rightarrow> string option" where
  "extract_thread_id urlparse_path url =
     (let path_parts = split_char CHR ''.'' (urlparse_path url)
      in if length path_parts > 1 then Some (last path_parts) else None)"

text \<open>
  \<^verbatim>\<open>generate_item_id\<close>. The parameter \<open>md5_hexdigest\<close> stands for
  \<^verbatim>\<open>hashlib.md5(s.encode()).hexdigest()\<close>.
  \<^verbatim>\<open>
  thread_id = self.extract_thread_id(thread_url)
  if thread_id and timestamp:
      id_string = f"{thread_id}_{timestamp}"
      return hashlib.md5(id_string.encode()).hexdigest()
  return None
  \<close>
\<close>

definition generate_item_id ::
  "(string \<Rightarrow> string) \<Rightarrow> (string \<Rightarrow> string) \<Rightarrow> string \<Rightarrow> string option \<Rightarrow> string option" where
  "generate_item_id urlparse_path md5_hexdigest thread_url timestamp =
     (let thread_id = extract_thread_id urlparse_path thread_url
      in if truthy thread_id \<and> truthy timestamp
         then Some (md5_hexdigest (the thread_id @ ''_'' @ the timestamp))
         else None)"

text \<open>The text after the last dot of a string: what the claims call the last
  dot-delimited segment.\<close>

definition last_dot_segment :: "string \<Rightarrow> string" where
  "last_dot_segment p = rev (takeWhile (\<lambda>c. c \<noteq> CHR ''.'') (rev p))"

section \<open>The reply extractor (\<^verbatim>\<open>demospider.py\<close>, lines 72--100)\<close>

text \<open>
  A parsed page is a tree of text nodes and elements (tag name, attributes, children).
\<close>

datatype node = Text string | Element string "(string \<times> string) list" "node list"

text \<open>XPath \<^verbatim>\<open>contains(a, b)\<close>: \<open>b\<close> occurs in \<open>a\<close>.\<close>

fun contains_str :: "string \<Rightarrow> string \<Rightarrow> bool" where
  "contains_str [] b = (b = [])"
| "contains_str (x # xs) b = (take (length b) (x # xs) = b \<or> contains_str xs b)"

text \<open>
  \<^verbatim>\<open>[contains(@a, v)]\<close> and \<^verbatim>\<open>[@a = v]\<close> on an element's attributes; a missing
  attribute has the string value \<^verbatim>\<open>''\<close> in the first and matches nothing in the second.
\<close>

definition attr_contains :: "(string \<times> string) list \<Rightarrow> string \<Rightarrow> string \<Rightarrow> bool" where
  "attr_contains attrs a v =
     contains_str (case map_of attrs a of None \<Rightarrow> [] | Some w \<Rightarrow> w) v"

definition attr_is :: "(string \<times> string) list \<Rightarrow> string \<Rightarrow> string \<Rightarrow> bool" where
  "attr_is attrs a v = (map_of attrs a = Some v)"

text \<open>
  The selector of line 80, evaluated below a message container:
  \<^verbatim>\<open>
  .//div[contains(@class, 'message-userContent')]//div[@class='bbWrapper']
     //text()[not(ancestor::blockquote)]
  \<close>
  A text node is selected when, on the way down from the container, it lies below a
  \<^verbatim>\<open>div\<close> whose class is \<^verbatim>\<open>bbWrapper\<close>, itself below a \<^verbatim>\<open>div\<close> whose
  class contains \<^verbatim>\<open>message-userContent\<close>, and when no element above it in the page
  is a \<^verbatim>\<open>blockquote\<close>. The walk keeps how much of the path the elements above
  have matched, and whether one of them is a \<^verbatim>\<open>blockquote\<close>; the result is in
  document order.
\<close>

datatype stage = Outside | InUserContent | InWrapper

fun advance :: "stage \<Rightarrow> string \<Rightarrow> (string \<times> string) list \<Rightarrow> stage" where
  "advance Outside tag attrs =
     (if tag = ''div'' \<and> attr_contains attrs ''class'' ''message-userContent''
      then InUserContent else Outside)"
| "advance InUserContent tag attrs =
     (if tag = ''div'' \<and> attr_is attrs ''class'' ''bbWrapper'' then InWrapper
      else InUserContent)"
| "advance InWrapper tag attrs = InWrapper"

fun body_texts :: "stage \<Rightarrow> bool \<Rightarrow> node \<Rightarrow> string list" where
  "body_texts st quoted (Text s) = (if st = InWrapper \<and> \<not> quoted then [s] else [])"
| "body_texts st quoted (Element tag attrs kids) =
     concat (map (body_texts (advance st tag attrs) (quoted \<or> tag = ''blockquote'')) kids)"

text \<open>The selector applied to a context node, itself below a \<^verbatim>\<open>blockquote\<close> or not.\<close>

fun xpath_body_texts :: "bool \<Rightarrow> node \<Rightarrow> string list" where
  "xpath_body_texts quoted (Text s) = []"
| "xpath_body_texts quoted (Element tag attrs kids) =
     concat (map (body_texts Outside (quoted \<or> tag = ''blockquote'')) kids)"

text \<open>
  \<^verbatim>\<open>str.isspace\<close> on the code points below 256, \<^verbatim>\<open>str.strip()\<close> and
  \<^verbatim>\<open>sep.join(xs)\<close>.
\<close>

definition py_isspace :: "char \<Rightarrow> bool" where
  "py_isspace c = (of_char c \<in> {9, 10, 11, 12, 13, 28, 29, 30, 31, 32, 133, 160 :: nat})"

definition strip :: "string \<Rightarrow> string" where
  "strip s = rev (dropWhile py_isspace (rev (dropWhile py_isspace s)))"

fun join :: "string \<Rightarrow> string list \<Rightarrow> string" where
  "join sep [] = []"
| "join sep [x] = x"
| "join sep (x # y # ys) = x @ sep @ join sep (y # ys)"

text \<open>
  Lines 80--81:
  \<^verbatim>\<open>
  message_content = message_container.xpath("...").getall()
  message_content = ' '.join([text.strip() for text in message_content if text.strip()])
  \<close>
\<close>

definition extract_message_content :: "bool \<Rightarrow> node \<Rightarrow> string" where
  "extract_message_content quoted container =
     join '' '' (map strip (filter (\<lambda>text. strip text \<noteq> [])
                               (xpath_body_texts quoted container)))"

text \<open>
  A message container: an element matched by
  \<^verbatim>\<open>//article[contains(@class, 'message message--post')]\<close>, with whether it lies
  below a \<^verbatim>\<open>blockquote\<close>, and the first match (or \<^verbatim>\<open>None\<close>) of the two
  \<^verbatim>\<open>.get()\<close> selectors for the poster's name and the post timestamp, which the
  selector library evaluates.
\<close>

record message_container =
  mc_quoted :: bool
  mc_article :: node
  mc_username :: "string option"
  mc_timestamp :: "string option"

text \<open>The listing data that \<^verbatim>\<open>parse\<close> attaches to each request
  (\<^verbatim>\<open>thread_info\<close>); a parsed timestamp is naive (its position on the time line that
  starts at \<^verbatim>\<open>datetime.min\<close>) or aware (its instant in universal time); only
  the order of timestamps matters below.\<close>

datatype datetime = Naive nat | Aware int

record thread_info =
  ti_url :: string
  ti_thread_title :: "string option"
  ti_thread_date :: "string option"
  ti_timestamp :: "datetime option"

record response =
  resp_url :: string
  resp_thread_info :: thread_info
  resp_message_containers :: "message_container list"

text \<open>
  \<^verbatim>\<open>parse_latest_message\<close>, a generator: the result is the list of the items it
  yields, or the exception it raises. \<^verbatim>\<open>xpath(...)[-1]\<close> raises
  \<^verbatim>\<open>IndexError\<close> on a page without message container; the test
  \<^verbatim>\<open>if message_container:\<close> is true of every element (a selector is false only
  when it serialises to the empty string).
  \<^verbatim>\<open>
  item_id = self.generate_item_id(response.url, timestamp)
  yield {'id': item_id, 'thread_title': thread_info['thread_title'], ...}
  \<close>
\<close>

definition parse_latest_message ::
  "(string \<Rightarrow> string) \<Rightarrow> (string \<Rightarrow> string) \<Rightarrow> response \<Rightarrow> py_error + item list" where
  "parse_latest_message urlparse_path md5_hexdigest response =
     (let thread_info = resp_thread_info response in
      case resp_message_containers response of
        [] \<Rightarrow> Inl IndexError
      | c # cs \<Rightarrow>
          (let message_container = last (c # cs);
               message_content =
                 extract_message_content (mc_quoted message_container)
                   (mc_article message_container);
               username = mc_username message_container;
               timestamp = mc_timestamp message_container;
               item_id = generate_item_id urlparse_path md5_hexdigest
                           (resp_url response) timestamp
           in Inr [[''id'' \<mapsto> opt_pyval item_id,
                    ''thread_title'' \<mapsto> opt_pyval (ti_thread_title thread_info),
                    ''thread_date'' \<mapsto> opt_pyval (ti_thread_date thread_info),
                    ''latest_poster'' \<mapsto> opt_pyval username,
                    ''latest_post_time'' \<mapsto> opt_pyval timestamp,
                    ''message_content'' \<mapsto> PStr message_content,
                    ''thread_url'' \<mapsto> PStr (resp_url response)]]))"

text \<open>
  The page with every quoted block removed, and the text nodes that the path of line 80
  selects when its predicate \<^verbatim>\<open>[not(ancestor::blockquote)]\<close> is dropped: the two
  notions in which the quote stripping is stated.
\<close>

fun is_blockquote :: "node \<Rightarrow> bool" where
  "is_blockquote (Text s) = False"
| "is_blockquote (Element tag attrs kids) = (tag = ''blockquote'')"

fun remove_quotes :: "node \<Rightarrow> node" where
  "remove_quotes (Text s) = Text s"
| "remove_quotes (Element tag attrs kids) =
     Element tag attrs (map remove_quotes (filter (\<lambda>k. \<not> is_blockquote k) kids))"

fun wrapper_texts :: "stage \<Rightarrow> node \<Rightarrow> string list" where
  "wrapper_texts st (Text s) = (if st = InWrapper then [s] else [])"
| "wrapper_texts st (Element tag attrs kids) =
     concat (map (wrapper_texts (advance st tag attrs)) kids)"

fun xpath_wrapper_texts :: "node \<Rightarrow> string list" where
  "xpath_wrapper_texts (Text s) = []"
| "xpath_wrapper_texts (Element tag attrs kids) = concat (map (wrapper_texts Outside) kids)"

section \<open>The sentiment tagging stage (\<^verbatim>\<open>pipelines.py\<close>, lines 10--58)\<close>

text \<open>
  \<^verbatim>\<open>analyze_sentiment\<close>. The classifier \<^verbatim>\<open>underthesea.sentiment\<close> is the
  parameter \<open>sentiment\<close>: it returns a label (any value) or raises.
  \<^verbatim>\<open>
  try:
      sentiment_label = sentiment(text)
      sentiment_counts = {'positive': 0, 'negative': 0, 'neutral': 0}
      if sentiment_label == 'positive':   sentiment_counts['positive'] = 1
      elif sentiment_label == 'negative': sentiment_counts['negative'] = 1
      else:                               sentiment_counts['neutral'] = 1
      return sentiment_counts
  except Exception as e:
      logger.error(...)
      return {'positive': 0, 'negative': 0, 'neutral': 0}
  \<close>
\<close>

definition analyze_sentiment :: "(pyval \<Rightarrow> py_error + pyval) \<Rightarrow> pyval \<Rightarrow> item" where
  "analyze_sentiment sentiment text =
     (case sentiment text of
        Inr sentiment_label \<Rightarrow>
          (let sentiment_counts =
                 [''positive'' \<mapsto> PInt 0, ''negative'' \<mapsto> PInt 0, ''neutral'' \<mapsto> PInt 0]
           in if sentiment_label = PStr ''positive''
              then sentiment_counts(''positive'' \<mapsto> PInt 1)
              else if sentiment_label = PStr ''negative''
              then sentiment_counts(''negative'' \<mapsto> PInt 1)
              else sentiment_counts(''neutral'' \<mapsto> PInt 1))
      | Inl e \<Rightarrow>
          [''positive'' \<mapsto> PInt 0, ''negative'' \<mapsto> PInt 0, ''neutral'' \<mapsto> PInt 0])"

text \<open>
  \<^verbatim>\<open>FetchMessagePipeline.process_item\<close>; \<open>now\<close> is
  \<^verbatim>\<open>datetime.now().isoformat()\<close>. A missing \<^verbatim>\<open>message_content\<close> raises
  \<^verbatim>\<open>KeyError\<close> before the item is touched; the handler returns the item as it is.
  After \<^verbatim>\<open>item.update\<close> the only statement that can raise is the log line reading
  \<^verbatim>\<open>item['id']\<close>, and the handler then returns the item already updated in place.
  \<^verbatim>\<open>
  try:
      message_text = item['message_content']
      sentiment_counts = self.analyze_sentiment(message_text)
      item.update({**sentiment_counts, 'processed_at': datetime.now().isoformat()})
      logger.info(f"Processed item {item['id']}")
      return item
  except Exception as e:
      logger.error(...)
      return item
  \<close>
\<close>

definition FetchMessagePipeline_process_item ::
  "(pyval \<Rightarrow> py_error + pyval) \<Rightarrow> string \<Rightarrow> item \<Rightarrow> item" where
  "FetchMessagePipeline_process_item sentiment now item =
     (case item ''message_content'' of
        None \<Rightarrow> item
      | Some message_text \<Rightarrow>
          (let sentiment_counts = analyze_sentiment sentiment message_text
           in item ++ (sentiment_counts(''processed_at'' \<mapsto> PStr now))))"

section \<open>Example inputs for the spider and the tagging stage\<close>

text \<open>
  Stand-ins for the two library parameters in the evaluated examples below (the theorems
  themselves hold for every choice): the path of a URL of the form
  \<^verbatim>\<open>https://voz.vn<path>\<close> that has no parameters, query or fragment, and a
  digest function.
\<close>

definition path_after_host :: "string \<Rightarrow> string" where
  "path_after_host u = drop 14 u"

definition sample_digest :: "string \<Rightarrow> string" where
  "sample_digest s = ''md5:'' @ s"

text \<open>A thread page for the evaluated examples: the last reply quotes another post, then
  answers it; the post timestamp is a parameter.\<close>

definition sample_article :: node where
  "sample_article =
     Element ''article'' [(''class'', ''message message--post'')]
       [Element ''div'' [(''class'', ''message-userContent lbContainer'')]
          [Element ''div'' [(''class'', ''bbWrapper'')]
             [Element ''blockquote'' [(''class'', ''bbCodeBlock'')] [Text ''quoted words''],
              Text ''  original reply '',
              Text ''   '',
              Element ''b'' [] [Text ''bold'']]]]"

definition sample_response :: "string option \<Rightarrow> response" where
  "sample_response ts =
     \<lparr>resp_url = ''https://voz.vn/t/abc.123/latest'',
      resp_thread_info = \<lparr>ti_url = ''https://voz.vn/t/abc.123/latest'',
        ti_thread_title = Some ''abc'', ti_thread_date = Some ''2024-05-01T09:00:00'',
        ti_timestamp = Some (Naive 9)\<rparr>,
      resp_message_containers =
        [\<lparr>mc_quoted = False, mc_article = sample_article,
          mc_username = Some ''poster'', mc_timestamp = ts\<rparr>]\<rparr>"

text \<open>Two classifiers for the evaluated examples: one that always raises, one that
  labels a text.\<close>

definition failing_classifier :: "pyval \<Rightarrow> py_error + pyval" where
  "failing_classifier text = Inl ClassifierError"

definition sample_classifier :: "pyval \<Rightarrow> py_error + pyval" where
  "sample_classifier text =
     (if text = PStr ''hay qua'' then Inr (PStr ''positive'')
      else if text = PStr ''te qua'' then Inr (PStr ''negative'')
      else Inr PNone)"

section \<open>Thread discovery and ordering (\<^verbatim>\<open>demospider.py\<close>, lines 37--70)\<close>

text \<open>
  A thread container of the listing page, as the three \<^verbatim>\<open>.get()\<close> selectors of
  \<^verbatim>\<open>parse\<close> see it: the link to the latest reply, the thread-start date and the
  title, each the first match or \<^verbatim>\<open>None\<close>.
\<close>

record thread_container =
  tc_latest_link :: "string option"
  tc_thread_date_str :: "string option"
  tc_thread_title :: "string option"

text \<open>A \<^verbatim>\<open>scrapy.Request\<close> for \<^verbatim>\<open>parse_latest_message\<close>: its URL and its
  \<^verbatim>\<open>meta['thread_info']\<close>.\<close>

record request =
  req_url :: string
  req_thread_info :: thread_info

text \<open>\<^verbatim>\<open>s.replace('Z', '+00:00')\<close>.\<close>

definition replace_Z :: "string \<Rightarrow> string" where
  "replace_Z s = concat (map (\<lambda>c. if c = CHR ''Z'' then ''+00:00'' else [c]) s)"

text \<open>
  The first loop of \<^verbatim>\<open>parse\<close>. \<^verbatim>\<open>urljoin\<close> and
  \<^verbatim>\<open>datetime.fromisoformat\<close> are library functions, taken as parameters; the second
  returns a timestamp or raises.
  \<^verbatim>\<open>
  for thread in thread_containers:
      latest_link = thread.xpath("...").get()
      if latest_link:
          thread_url = urljoin(response.url, latest_link)
          thread_date_str = thread.xpath("...").get()
          thread_info = {
              'url': thread_url,
              'thread_title': thread.xpath("...").get(),
              'thread_date': thread_date_str,
              'timestamp': datetime.fromisoformat(thread_date_str.replace('Z', '+00:00'))
                           if thread_date_str else None }
          threads.append(thread_info)
  \<close>
\<close>

fun thread_infos ::
  "(string \<Rightarrow> string \<Rightarrow> string) \<Rightarrow> (string \<Rightarrow> py_error + datetime) \<Rightarrow> string \<Rightarrow>
   thread_container list \<Rightarrow> py_error + thread_info list" where
  "thread_infos urljoin fromisoformat response_url [] = Inr []"
| "thread_infos urljoin fromisoformat response_url (thread # rest) =
     (if truthy (tc_latest_link thread) then
        (case (if truthy (tc_thread_date_str thread)
               then (case fromisoformat (replace_Z (the (tc_thread_date_str thread))) of
                       Inl e \<Rightarrow> Inl e
                     | Inr d \<Rightarrow> Inr (Some d))
               else Inr None) of
           Inl e \<Rightarrow> Inl e
         | Inr ts \<Rightarrow>
             (case thread_infos urljoin fromisoformat response_url rest of
                Inl e \<Rightarrow> Inl e
              | Inr threads \<Rightarrow>
                  Inr (\<lparr>ti_url = urljoin response_url (the (tc_latest_link thread)),
                        ti_thread_title = tc_thread_title thread,
                        ti_thread_date = tc_thread_date_str thread,
                        ti_timestamp = ts\<rparr> # threads)))
      else thread_infos urljoin fromisoformat response_url rest)"

text \<open>
  The sort key \<^verbatim>\<open>x['timestamp'] if x['timestamp'] else datetime.min\<close>;
  \<^verbatim>\<open>datetime.min\<close> is naive.
\<close>

definition datetime_min :: datetime where
  "datetime_min = Naive 0"

definition sort_key_of :: "thread_info \<Rightarrow> datetime" where
  "sort_key_of x = (case ti_timestamp x of Some d \<Rightarrow> d | None \<Rightarrow> datetime_min)"

fun is_aware :: "datetime \<Rightarrow> bool" where
  "is_aware (Naive n) = False"
| "is_aware (Aware i) = True"

fun dt_rank :: "datetime \<Rightarrow> int" where
  "dt_rank (Naive n) = int n"
| "dt_rank (Aware i) = i"

text \<open>
  \<^verbatim>\<open>sorted(xs, key=..., reverse=True)\<close> on timestamps: a stable sort, largest key
  first, elements of equal key in their original order. Ordering a naive against an aware
  timestamp raises \<^verbatim>\<open>TypeError\<close>, and a sort of a list that holds both kinds compares
  such a pair.
\<close>

definition py_sorted_reverse :: "('a \<Rightarrow> datetime) \<Rightarrow> 'a list \<Rightarrow> py_error + 'a list" where
  "py_sorted_reverse key xs =
     (if \<exists>x\<in>set xs. \<exists>y\<in>set xs. is_aware (key x) \<noteq> is_aware (key y) then Inl TypeError
      else Inr (rev (sort_key (\<lambda>x. dt_rank (key x)) (rev xs))))"

definition request_for :: "thread_info \<Rightarrow> request" where
  "request_for thread = \<lparr>req_url = ti_url thread, req_thread_info = thread\<rparr>"

text \<open>
  \<^verbatim>\<open>parse\<close>, a generator whose list and sort are complete before the first
  \<^verbatim>\<open>yield\<close>: the result is the sequence of requests, or the exception raised.
\<close>

definition parse ::
  "(string \<Rightarrow> string \<Rightarrow> string) \<Rightarrow> (string \<Rightarrow> py_error + datetime) \<Rightarrow> string \<Rightarrow>
   thread_container list \<Rightarrow> py_error + request list" where
  "parse urljoin fromisoformat response_url thread_containers =
     (case thread_infos urljoin fromisoformat response_url thread_containers of
        Inl e \<Rightarrow> Inl e
      | Inr threads \<Rightarrow>
          (case py_sorted_reverse sort_key_of threads of
             Inl e \<Rightarrow> Inl e
           | Inr sorted_threads \<Rightarrow> Inr (map request_for sorted_threads)))"

text \<open>
  For the evaluated examples: \<^verbatim>\<open>urljoin\<close> on a link that is an absolute path, the
  results of \<^verbatim>\<open>datetime.fromisoformat\<close> on two date strings (naive timestamps, the
  later one further along the time line) with \<^verbatim>\<open>ValueError\<close> on everything else,
  and three listing entries.
\<close>

definition sample_urljoin :: "string \<Rightarrow> string \<Rightarrow> string" where
  "sample_urljoin base link = take 14 base @ link"

definition sample_fromisoformat :: "string \<Rightarrow> py_error + datetime" where
  "sample_fromisoformat s =
     (if s = ''2024-05-01T10:00:00'' then Inr (Naive 10)
      else if s = ''2024-05-01T12:00:00'' then Inr (Naive 12)
      else Inl ValueError)"

definition sample_entry :: "string \<Rightarrow> string option \<Rightarrow> thread_container" where
  "sample_entry name date =
     \<lparr>tc_latest_link = Some (''/t/'' @ name @ ''/latest''),
      tc_thread_date_str = date,
      tc_thread_title = Some name\<rparr>"

definition sample_thread :: "string \<Rightarrow> string option \<Rightarrow> datetime option \<Rightarrow> thread_info" where
  "sample_thread name date ts =
     \<lparr>ti_url = ''https://voz.vn/t/'' @ name @ ''/latest'',
      ti_thread_title = Some name,
      ti_thread_date = date,
      ti_timestamp = ts\<rparr>"

definition sample_listing :: "string option \<Rightarrow> thread_container list" where
  "sample_listing third_date =
     [sample_entry ''t1.1'' (Some ''2024-05-01T10:00:00''),
      sample_entry ''t2.2'' (Some ''2024-05-01T12:00:00''),
      sample_entry ''t3.3'' third_date]"

section \<open>The storage gateway (\<^verbatim>\<open>pipelines.py\<close>, lines 60--109)\<close>

text \<open>A row of table \<^verbatim>\<open>voz_messages\<close>: the eleven columns the \<^verbatim>\<open>INSERT\<close>
  names, holding the values passed to it.\<close>

record row =
  col_id :: pyval
  col_thread_title :: pyval
  col_thread_date :: pyval
  col_latest_poster :: pyval
  col_latest_post_time :: pyval
  col_message_content :: pyval
  col_thread_url :: pyval
  col_positive_count :: pyval
  col_negative_count :: pyval
  col_neutral_count :: pyval
  col_analyzed_at :: pyval

text \<open>
  The statement of \<^verbatim>\<open>process_item\<close> on a table kept as the list of its rows:
  \<^verbatim>\<open>
  INSERT INTO voz_messages (...) VALUES (...)
  ON CONFLICT (id) DO UPDATE SET
      positive_count = EXCLUDED.positive_count,
      negative_count = EXCLUDED.negative_count,
      neutral_count = EXCLUDED.neutral_count,
      analyzed_at = EXCLUDED.analyzed_at
  \<close>
\<close>

fun upsert :: "row \<Rightarrow> row list \<Rightarrow> row list" where
  "upsert new [] = [new]"
| "upsert new (old # rest) =
     (if col_id old = col_id new
      then old\<lparr>col_positive_count := col_positive_count new,
               col_negative_count := col_negative_count new,
               col_neutral_count := col_neutral_count new,
               col_analyzed_at := col_analyzed_at new\<rparr> # rest
      else old # upsert new rest)"

text \<open>
  Modelled from the spec: the declaration of table \<^verbatim>\<open>voz_messages\<close> is not among the
  sources; the spec makes \<^verbatim>\<open>id\<close> its primary key, so a row whose \<^verbatim>\<open>id\<close> is
  \<^verbatim>\<open>NULL\<close> is refused.
\<close>

definition execute_upsert :: "row \<Rightarrow> row list \<Rightarrow> py_error + row list" where
  "execute_upsert new tbl = (if col_id new = PNone then Inl DatabaseError else Inr (upsert new tbl))"

text \<open>The parameter tuple of the statement; a key missing from the item raises
  \<^verbatim>\<open>KeyError\<close> (here \<open>None\<close>).\<close>

definition insert_keys :: "string list" where
  "insert_keys = [''id'', ''thread_title'', ''thread_date'', ''latest_poster'',
     ''latest_post_time'', ''message_content'', ''thread_url'',
     ''positive'', ''negative'', ''neutral'', ''processed_at'']"

definition item_row :: "item \<Rightarrow> row option" where
  "item_row item =
     (if list_all (\<lambda>k. item k \<noteq> None) insert_keys
      then Some \<lparr>col_id = the (item ''id''),
                 col_thread_title = the (item ''thread_title''),
                 col_thread_date = the (item ''thread_date''),
                 col_latest_poster = the (item ''latest_poster''),
                 col_latest_post_time = the (item ''latest_post_time''),
                 col_message_content = the (item ''message_content''),
                 col_thread_url = the (item ''thread_url''),
                 col_positive_count = the (item ''positive''),
                 col_negative_count = the (item ''negative''),
                 col_neutral_count = the (item ''neutral''),
                 col_analyzed_at = the (item ''processed_at'')\<rparr>
      else None)"

text \<open>
  \<^verbatim>\<open>SentimentAnalysisPipeline.__init__\<close>: a failure of \<^verbatim>\<open>psycopg2.connect\<close> is
  logged and swallowed, and the attributes \<^verbatim>\<open>conn\<close> and \<^verbatim>\<open>cur\<close> are then never
  set. The pipeline is the table its connection works on, or \<open>None\<close> without connection.
\<close>

definition SentimentAnalysisPipeline_init :: "py_error + row list \<Rightarrow> row list option" where
  "SentimentAnalysisPipeline_init connect =
     (case connect of Inr tbl \<Rightarrow> Some tbl | Inl e \<Rightarrow> None)"

text \<open>What the store does to one call, beyond the statement itself: whether
  \<^verbatim>\<open>execute\<close>, \<^verbatim>\<open>commit\<close> or \<^verbatim>\<open>rollback\<close> raise.\<close>

record db_faults =
  execute_fails :: bool
  commit_fails :: bool
  rollback_fails :: bool

text \<open>
  \<^verbatim>\<open>SentimentAnalysisPipeline.process_item\<close>. The handler is the \<^verbatim>\<open>except\<close>
  branch: its log line reads \<^verbatim>\<open>item['id']\<close>, and its \<^verbatim>\<open>rollback\<close> is not
  guarded.
  \<^verbatim>\<open>
  try:
      self.cur.execute("""...""", (item['id'], ..., item['processed_at']))
      self.conn.commit()
      logger.info(f"Successfully stored item {item['id']} in database")
  except Exception as e:
      logger.error(f"Error storing item {item['id']} in database: {str(e)}")
      self.conn.rollback()
  return item
  \<close>
\<close>

definition except_handler ::
  "db_faults \<Rightarrow> row list option \<Rightarrow> item \<Rightarrow> py_error + (row list option \<times> item)" where
  "except_handler faults self item =
     (case item ''id'' of
        None \<Rightarrow> Inl KeyError
      | Some i \<Rightarrow>
          (case self of
             None \<Rightarrow> Inl AttributeError
           | Some tbl \<Rightarrow>
               if rollback_fails faults then Inl DatabaseError else Inr (Some tbl, item)))"

definition SentimentAnalysisPipeline_process_item ::
  "db_faults \<Rightarrow> row list option \<Rightarrow> item \<Rightarrow> py_error + (row list option \<times> item)" where
  "SentimentAnalysisPipeline_process_item faults self item =
     (case self of
        None \<Rightarrow> except_handler faults self item
      | Some tbl \<Rightarrow>
          (case item_row item of
             None \<Rightarrow> except_handler faults self item
           | Some new \<Rightarrow>
               if execute_fails faults then except_handler faults self item
               else (case execute_upsert new tbl of
                       Inl e \<Rightarrow> except_handler faults self item
                     | Inr tbl' \<Rightarrow>
                         if commit_fails faults then except_handler faults self item
                         else Inr (Some tbl', item))))"

text \<open>The row stored under an \<^verbatim>\<open>id\<close>.\<close>

definition row_with_id :: "pyval \<Rightarrow> row list \<Rightarrow> row option" where
  "row_with_id i tbl = find (\<lambda>r. col_id r = i) tbl"

text \<open>For the evaluated examples: no fault, and a fully tagged item.\<close>

definition no_faults :: db_faults where
  "no_faults = \<lparr>execute_fails = False, commit_fails = False, rollback_fails = False\<rparr>"

definition sample_item :: "string \<Rightarrow> string \<Rightarrow> int \<Rightarrow> int \<Rightarrow> int \<Rightarrow> string \<Rightarrow> item" where
  "sample_item i content p n u at =
     [''id'' \<mapsto> PStr i, ''thread_title'' \<mapsto> PStr ''abc'',
      ''thread_date'' \<mapsto> PStr ''2024-05-01T09:00:00'', ''latest_poster'' \<mapsto> PStr ''poster'',
      ''latest_post_time'' \<mapsto> PStr ''2024-05-01T10:00:00'',
      ''message_content'' \<mapsto> PStr content,
      ''thread_url'' \<mapsto> PStr ''https://voz.vn/t/abc.123/latest'',
      ''positive'' \<mapsto> PInt p, ''negative'' \<mapsto> PInt n, ''neutral'' \<mapsto> PInt u,
      ''processed_at'' \<mapsto> PStr at]"

section \<open>The paginated messages endpoint (\<^verbatim>\<open>main.py\<close>, lines 123--211)\<close>

text \<open>A row of the result of the \<^verbatim>\<open>SELECT\<close>: nine columns, the sentiment label
  derived from the counts.\<close>

record message =
  m_id :: pyval
  m_thread_title :: pyval
  m_thread_date :: pyval
  m_message_content :: pyval
  m_latest_poster :: pyval
  m_latest_post_time :: pyval
  m_thread_url :: pyval
  m_sentiment :: string
  m_analyzed_at :: pyval

text \<open>
  \<^verbatim>\<open>
  CASE WHEN positive_count = 1 THEN 'positive'
       WHEN negative_count = 1 THEN 'negative'
       ELSE 'neutral' END as sentiment
  \<close>
\<close>

definition select_message :: "row \<Rightarrow> message" where
  "select_message r =
     \<lparr>m_id = col_id r,
      m_thread_title = col_thread_title r,
      m_thread_date = col_thread_date r,
      m_message_content = col_message_content r,
      m_latest_poster = col_latest_poster r,
      m_latest_post_time = col_latest_post_time r,
      m_thread_url = col_thread_url r,
      m_sentiment =
        (if col_positive_count r = PInt 1 then ''positive''
         else if col_negative_count r = PInt 1 then ''negative''
         else ''neutral''),
      m_analyzed_at = col_analyzed_at r\<rparr>"

text \<open>
  The condition \<^verbatim>\<open>WHERE 1=1 [AND thread_id = %s]\<close>, the same in the page query and
  in the count query; the second conjunct is added when \<^verbatim>\<open>thread_id\<close> is true
  (neither \<^verbatim>\<open>None\<close> nor empty). Column \<^verbatim>\<open>thread_id\<close> belongs to the table
  declaration, which is not among the sources: \<open>thread_id_of\<close>, a parameter, reads it
  from a row, and is \<open>None\<close> when the table has no such column.
\<close>

definition where_clause :: "(row \<Rightarrow> pyval) option \<Rightarrow> string option \<Rightarrow> row \<Rightarrow> bool" where
  "where_clause thread_id_of thread_id r =
     (if truthy thread_id
      then (case thread_id_of of
              None \<Rightarrow> False
            | Some col \<Rightarrow> col r = PStr (the thread_id))
      else True)"

text \<open>
  \<^verbatim>\<open>ORDER BY analyzed_at DESC\<close>: the parameter \<open>ts\<close> is the position on the time
  line that the store gives a value of column \<^verbatim>\<open>analyzed_at\<close>; rows of equal
  position come in an order the store chooses, here the reverse of the table's.
\<close>

definition order_by_analyzed_at_desc :: "(pyval \<Rightarrow> int) \<Rightarrow> row list \<Rightarrow> row list" where
  "order_by_analyzed_at_desc ts rows = rev (sort_key (\<lambda>r. ts (col_analyzed_at r)) rows)"

text \<open>The store as a request meets it: unreachable, failing its queries, or serving a
  table.\<close>

datatype database = ConnectFails | QueryFails | Serving "row list"

datatype api_error = HTTPException nat | RequestValidationError

record page =
  page_messages :: "message list"
  page_total :: int
  page_limit :: int
  page_offset :: int

text \<open>
  \<^verbatim>\<open>get_messages_with_sentiment\<close>. Every \<^verbatim>\<open>psycopg2.Error\<close> becomes
  \<^verbatim>\<open>HTTPException(500)\<close>: a failing query, a filter on a column that does not exist,
  and a \<^verbatim>\<open>LIMIT\<close> or \<^verbatim>\<open>OFFSET\<close> that is negative or beyond the store's 64-bit
  integers.
  \<^verbatim>\<open>
  query += " ORDER BY analyzed_at DESC LIMIT %s OFFSET %s"
  cur.execute(query, params);  messages = cur.fetchall()
  count_query = "SELECT COUNT(*) as total FROM voz_messages WHERE 1=1" [+ " AND thread_id = %s"]
  total_count = cur.fetchone()['total']
  return {"messages": messages, "total": total_count, "limit": limit, "offset": offset}
  \<close>
\<close>

definition get_messages_with_sentiment ::
  "(pyval \<Rightarrow> int) \<Rightarrow> (row \<Rightarrow> pyval) option \<Rightarrow> database \<Rightarrow> int \<Rightarrow> int \<Rightarrow> string option \<Rightarrow>
   api_error + page" where
  "get_messages_with_sentiment ts thread_id_of conn lim off thread_id =
     (case conn of
        ConnectFails \<Rightarrow> Inl (HTTPException 500)
      | QueryFails \<Rightarrow> Inl (HTTPException 500)
      | Serving tbl \<Rightarrow>
          if truthy thread_id \<and> thread_id_of = None then Inl (HTTPException 500)
          else if lim < 0 \<or> off < 0 \<or> 2 ^ 63 \<le> lim \<or> 2 ^ 63 \<le> off
          then Inl (HTTPException 500)
          else
            (let matching = filter (where_clause thread_id_of thread_id) tbl;
                 messages = map select_message
                              (take (nat lim) (drop (nat off) (order_by_analyzed_at_desc ts matching)));
                 total_count = int (length matching)
             in Inr \<lparr>page_messages = messages, page_total = total_count,
                      page_limit = lim, page_offset = off\<rparr>))"

text \<open>
  The endpoint \<^verbatim>\<open>get_messages\<close>. The dependency \<^verbatim>\<open>get_db\<close> is resolved first and
  answers an unreachable store with \<^verbatim>\<open>HTTPException(500)\<close>; then
  \<^verbatim>\<open>Query(10, ge=1, le=100)\<close> and \<^verbatim>\<open>Query(0, ge=0)\<close> validate the two numbers, and
  a request that violates a bound is rejected with a validation error.
\<close>

definition get_messages ::
  "(pyval \<Rightarrow> int) \<Rightarrow> (row \<Rightarrow> pyval) option \<Rightarrow> database \<Rightarrow> int \<Rightarrow> int \<Rightarrow> string option \<Rightarrow>
   api_error + page" where
  "get_messages ts thread_id_of conn lim off thread_id =
     (if conn = ConnectFails then Inl (HTTPException 500)
      else if lim < 1 \<or> 100 < lim \<or> off < 0 then Inl RequestValidationError
      else get_messages_with_sentiment ts thread_id_of conn lim off thread_id)"

text \<open>For the evaluated examples: a table of three rows, and the order of their
  \<^verbatim>\<open>analyzed_at\<close> values.\<close>

definition sample_row :: "string \<Rightarrow> int \<Rightarrow> int \<Rightarrow> int \<Rightarrow> string \<Rightarrow> row" where
  "sample_row i p n u at =
     \<lparr>col_id = PStr i, col_thread_title = PStr ''abc'',
      col_thread_date = PStr ''2024-05-01T09:00:00'', col_latest_poster = PStr ''poster'',
      col_latest_post_time = PStr ''2024-05-01T10:00:00'',
      col_message_content = PStr ''text'',
      col_thread_url = PStr ''https://voz.vn/t/abc.123/latest'',
      col_positive_count = PInt p, col_negative_count = PInt n, col_neutral_count = PInt u,
      col_analyzed_at = PStr at\<rparr>"

definition sample_table :: "row list" where
  "sample_table =
     [sample_row ''k1'' 1 0 0 ''2024-05-01T10:00:05'',
      sample_row ''k2'' 0 1 0 ''2024-05-01T10:00:09'',
      sample_row ''k3'' 0 0 1 ''2024-05-01T10:00:07'']"

definition sample_ts :: "pyval \<Rightarrow> int" where
  "sample_ts v =
     (if v = PStr ''2024-05-01T10:00:05'' then 5
      else if v = PStr ''2024-05-01T10:00:07'' then 7
      else if v = PStr ''2024-05-01T10:00:09'' then 9
      else 0)"

section \<open>Properties of the ID generator\<close>

lemma split_char_nonempty: "split_char c s \<noteq> []"
  by (induction s) (auto split: list.splits)

lemma split_char_no_sep: "c \<notin> set s \<Longrightarrow> split_char c s = [s]"
  by (induction s) auto

lemma split_char_length: "length (split_char c s) = Suc (length (filter (\<lambda>x. x = c) s))"
  by (induction s) (auto split: list.splits simp: split_char_nonempty)

lemma split_char_last: "last (split_char c s) = rev (takeWhile (\<lambda>x. x \<noteq> c) (rev s))"
proof (induction s)
  case Nil
  then show ?case by simp
next
  case (Cons x xs)
  show ?case
  proof (cases "x = c")
    case True
    then show ?thesis
      using Cons split_char_nonempty[of c xs]
      by (cases "c \<in> set xs") (auto simp: takeWhile_append)
  next
    case False
    obtain w ws where sp: "split_char c xs = w # ws"
      using split_char_nonempty[of c xs] by (cases "split_char c xs") auto
    show ?thesis
    proof (cases "c \<in> set xs")
      case True
      then have "length (split_char c xs) > 1"
        by (simp add: split_char_length filter_empty_conv length_greater_0_conv)
      then have "ws \<noteq> []" using sp by auto
      then have "last (split_char c (x # xs)) = last (split_char c xs)"
        using False sp by simp
      then show ?thesis using Cons True by (auto simp: takeWhile_append)
    next
      case notin: False
      then show ?thesis using False by (simp add: split_char_no_sep takeWhile_append)
    qed
  qed
qed

lemma extract_thread_id_dot:
  "CHR ''.'' \<in> set (urlparse_path url) \<Longrightarrow>
   extract_thread_id urlparse_path url = Some (last_dot_segment (urlparse_path url))"
  by (simp add: extract_thread_id_def Let_def split_char_length split_char_last
      last_dot_segment_def filter_empty_conv)

lemma extract_thread_id_none:
  "CHR ''.'' \<notin> set (urlparse_path url) \<Longrightarrow> extract_thread_id urlparse_path url = None"
  by (simp add: extract_thread_id_def Let_def split_char_no_sep)

text \<open>
  Claim C10. A thread URL whose path contains no dot has no thread identifier:
  \<^verbatim>\<open>extract_thread_id\<close> returns \<^verbatim>\<open>None\<close> (not the whole path), and so
  \<^verbatim>\<open>generate_item_id\<close> returns \<^verbatim>\<open>None\<close> for it whatever the post timestamp is.
\<close>

theorem no_dot_no_thread_id:
  "CHR ''.'' \<notin> set (urlparse_path url) \<Longrightarrow>
   extract_thread_id urlparse_path url = None
   \<and> generate_item_id urlparse_path md5_hexdigest url timestamp = None"
  by (simp add: generate_item_id_def extract_thread_id_none)

theorem no_dot_no_thread_id_witness:
  "CHR ''.'' \<notin> set (path_after_host ''https://voz.vn/whats-new'')
   \<and> extract_thread_id path_after_host ''https://voz.vn/whats-new'' = None
   \<and> generate_item_id path_after_host sample_digest ''https://voz.vn/whats-new''
        (Some ''2024-05-01T10:00:00+0700'') = None"
proof -
  have h: "CHR ''.'' \<notin> set (path_after_host ''https://voz.vn/whats-new'')"
    by (simp add: path_after_host_def)
  show ?thesis
    using h no_dot_no_thread_id[of path_after_host "''https://voz.vn/whats-new''"
        sample_digest "Some ''2024-05-01T10:00:00+0700''"]
    by blast
qed

text \<open>
  Claim C6. \<^verbatim>\<open>generate_item_id\<close> is a function of the thread URL and the post timestamp
  alone. When the path of the URL has a dot, the text after its last dot (the thread
  identifier) is not empty, and the timestamp is a non-empty string, the result is the
  digest of \<^verbatim>\<open>threadId + "_" + timestamp\<close>; when the thread identifier or the
  timestamp is absent (no dot in the path, nothing after the last dot, \<^verbatim>\<open>None\<close> or
  the empty string as timestamp: what Python's truth test rejects), the result is
  \<^verbatim>\<open>None\<close>. Equal inputs give equal outputs.
\<close>

theorem generate_item_id_digest:
  "(CHR ''.'' \<in> set (urlparse_path url) \<and> last_dot_segment (urlparse_path url) \<noteq> []
      \<and> timestamp = Some t \<and> t \<noteq> [] \<longrightarrow>
    generate_item_id urlparse_path md5_hexdigest url timestamp =
      Some (md5_hexdigest (last_dot_segment (urlparse_path url) @ ''_'' @ t)))
   \<and> (CHR ''.'' \<notin> set (urlparse_path url) \<or> last_dot_segment (urlparse_path url) = []
        \<or> timestamp = None \<or> timestamp = Some [] \<longrightarrow>
      generate_item_id urlparse_path md5_hexdigest url timestamp = None)
   \<and> (url' = url \<and> timestamp' = timestamp \<longrightarrow>
      generate_item_id urlparse_path md5_hexdigest url' timestamp' =
      generate_item_id urlparse_path md5_hexdigest url timestamp)"
proof (cases "CHR ''.'' \<in> set (urlparse_path url)")
  case True
  then show ?thesis
    by (auto simp: generate_item_id_def extract_thread_id_dot)
next
  case False
  then show ?thesis
    by (auto simp: generate_item_id_def extract_thread_id_none)
qed


theorem generate_item_id_digest_witness:
  "generate_item_id path_after_host sample_digest ''https://voz.vn/t/abc.123/latest''
     (Some ''2024-05-01T10:00:00+0700'') =
     Some (sample_digest ''123/latest_2024-05-01T10:00:00+0700'')
   \<and> generate_item_id path_after_host sample_digest ''https://voz.vn/t/abc.123/latest'' None
       = None"
proof -
  have p: "CHR ''.'' \<in> set (path_after_host ''https://voz.vn/t/abc.123/latest'')"
    by (simp add: path_after_host_def)
  have seg: "last_dot_segment (path_after_host ''https://voz.vn/t/abc.123/latest'')
      = ''123/latest''"
    by (simp add: path_after_host_def last_dot_segment_def)
  have a: "generate_item_id path_after_host sample_digest ''https://voz.vn/t/abc.123/latest''
     (Some ''2024-05-01T10:00:00+0700'') =
     Some (sample_digest (''123/latest'' @ ''_'' @ ''2024-05-01T10:00:00+0700''))"
    using p seg
      generate_item_id_digest[of path_after_host "''https://voz.vn/t/abc.123/latest''"
        "Some ''2024-05-01T10:00:00+0700''" "''2024-05-01T10:00:00+0700''" sample_digest]
    by simp
  have b: "generate_item_id path_after_host sample_digest ''https://voz.vn/t/abc.123/latest''
     None = None"
    using generate_item_id_digest[of path_after_host "''https://voz.vn/t/abc.123/latest''"
        None "[]" sample_digest]
    by blast
  show ?thesis using a b by simp
qed

section \<open>Properties of the reply extractor\<close>

lemma body_texts_quoted: "body_texts st True n = []"
  by (induction st "True" n rule: body_texts.induct) auto

lemma body_texts_remove_quotes:
  "\<not> is_blockquote n \<Longrightarrow> body_texts st False n = wrapper_texts st (remove_quotes n)"
proof (induction n arbitrary: st)
  case (Text s)
  then show ?case by simp
next
  case (Element tag attrs kids)
  have "concat (map (body_texts st' False) ks) =
        concat (map (wrapper_texts st') (map remove_quotes (filter (\<lambda>k. \<not> is_blockquote k) ks)))"
    if "set ks \<subseteq> set kids" for ks st'
    using that
  proof (induction ks)
    case Nil
    then show ?case by simp
  next
    case (Cons k ks)
    show ?case
    proof (cases "is_blockquote k")
      case True
      then obtain a b where "k = Element ''blockquote'' a b" by (cases k) auto
      then have "body_texts st' False k = []" by (simp add: body_texts_quoted)
      then show ?thesis using Cons True by simp
    next
      case False
      then have "body_texts st' False k = wrapper_texts st' (remove_quotes k)"
        using Element.IH[of k st'] Cons.prems by simp
      then show ?thesis using Cons False by simp
    qed
  qed
  then show ?case using Element.prems by simp
qed

lemma dropWhile_all_Nil: "(\<forall>x\<in>set (dropWhile P t). P x) \<longleftrightarrow> dropWhile P t = []"
proof
  assume a: "\<forall>x\<in>set (dropWhile P t). P x"
  show "dropWhile P t = []"
  proof (rule ccontr)
    assume n: "dropWhile P t \<noteq> []"
    then have "\<not> P (hd (dropWhile P t))" by (rule hd_dropWhile)
    moreover have "hd (dropWhile P t) \<in> set (dropWhile P t)" using n by simp
    ultimately show False using a by blast
  qed
qed (auto dest: set_dropWhileD)

lemma strip_empty_iff: "strip t = [] \<longleftrightarrow> (\<forall>c\<in>set t. py_isspace c)"
  by (simp add: strip_def dropWhile_all_Nil)

lemma nonblank_conv: "(strip t \<noteq> []) = (\<exists>c\<in>set t. \<not> py_isspace c)"
  by (simp add: strip_empty_iff)

lemma xpath_body_texts_remove_quotes:
  "xpath_body_texts quoted n =
     (if quoted \<or> is_blockquote n then [] else xpath_wrapper_texts (remove_quotes n))"
proof (cases n)
  case (Text s)
  then show ?thesis by simp
next
  case (Element tag attrs kids)
  have q: "concat (map (body_texts st True) ks) = []" for st ks
    by (simp add: body_texts_quoted)
  have r: "concat (map (body_texts st False) ks) =
        concat (map (wrapper_texts st) (map remove_quotes (filter (\<lambda>k. \<not> is_blockquote k) ks)))"
    for st ks
  proof (induction ks)
    case Nil
    then show ?case by simp
  next
    case (Cons k ks)
    show ?case
    proof (cases "is_blockquote k")
      case True
      then obtain a b where "k = Element ''blockquote'' a b" by (cases k) auto
      then have "body_texts st False k = []" by (simp add: body_texts_quoted)
      then show ?thesis using Cons True by simp
    next
      case False
      then show ?thesis using Cons by (simp add: body_texts_remove_quotes)
    qed
  qed
  show ?thesis using Element q r by (simp del: concat_eq_Nil_conv)
qed

text \<open>
  Claim C7. The message content of the item a thread page yields is built from the text
  nodes of the last reply that lie below no quoted block: it equals what the same path
  selects, without its \<^verbatim>\<open>blockquote\<close> predicate, on the reply with every quoted
  block removed (and is empty for a reply that itself lies in a quoted block). Of these
  text fragments the ones consisting of whitespace only are discarded, the others are
  trimmed and joined by single spaces.
\<close>

theorem quoted_text_excluded:
  "resp_message_containers response \<noteq> [] \<Longrightarrow>
   mc = last (resp_message_containers response) \<Longrightarrow>
   \<exists>item. parse_latest_message urlparse_path md5_hexdigest response = Inr [item]
     \<and> item ''message_content'' =
         Some (PStr (if mc_quoted mc \<or> is_blockquote (mc_article mc) then []
                     else join '' ''
                            (map strip
                               (filter (\<lambda>t. \<exists>c\<in>set t. \<not> py_isspace c)
                                  (xpath_wrapper_texts (remove_quotes (mc_article mc)))))))"
  by (cases "resp_message_containers response")
     (simp_all add: parse_latest_message_def Let_def extract_message_content_def
       xpath_body_texts_remove_quotes nonblank_conv)

theorem quoted_text_excluded_witness:
  "resp_message_containers (sample_response (Some ''2024-05-01T10:00:00+0700'')) \<noteq> []
   \<and> (\<exists>item. parse_latest_message path_after_host sample_digest
                 (sample_response (Some ''2024-05-01T10:00:00+0700'')) = Inr [item]
          \<and> item ''message_content'' = Some (PStr ''original reply bold''))"
proof -
  let ?r = "sample_response (Some ''2024-05-01T10:00:00+0700'')"
  let ?mc = "last (resp_message_containers ?r)"
  have h: "resp_message_containers ?r \<noteq> []"
    by (simp add: sample_response_def)
  have a: "mc_article ?mc = sample_article" "\<not> mc_quoted ?mc"
    by (simp_all add: sample_response_def)
  have b: "\<not> is_blockquote sample_article"
    by (simp add: sample_article_def)
  have c: "xpath_wrapper_texts (remove_quotes sample_article) =
             [''  original reply '', ''   '', ''bold'']"
    by (simp add: sample_article_def attr_contains_def attr_is_def)
  have d: "join '' '' (map strip (filter (\<lambda>t. \<exists>c\<in>set t. \<not> py_isspace c)
             [''  original reply '', ''   '', ''bold''])) = ''original reply bold''"
    by (simp add: strip_def py_isspace_def)
  show ?thesis
    using h quoted_text_excluded[OF h refl, of path_after_host sample_digest]
    by (simp only: a b c d simp_thms if_False)
qed

text \<open>
  Claim C3, as the code has it. A thread page with at least one reply yields exactly one
  item, whose \<^verbatim>\<open>id\<close> is the result of \<^verbatim>\<open>generate_item_id\<close>; when no ID can be
  derived the item is yielded all the same, with \<^verbatim>\<open>id\<close> \<^verbatim>\<open>None\<close>: nothing in
  \<^verbatim>\<open>parse_latest_message\<close> tests \<^verbatim>\<open>item_id\<close>.
\<close>

theorem missing_id_item_still_emitted:
  "resp_message_containers response \<noteq> [] \<Longrightarrow>
   \<exists>item. parse_latest_message urlparse_path md5_hexdigest response = Inr [item]
     \<and> item ''id'' =
         Some (opt_pyval (generate_item_id urlparse_path md5_hexdigest (resp_url response)
                 (mc_timestamp (last (resp_message_containers response)))))
     \<and> (generate_item_id urlparse_path md5_hexdigest (resp_url response)
           (mc_timestamp (last (resp_message_containers response))) = None
          \<longrightarrow> item ''id'' = Some PNone)"
  by (cases "resp_message_containers response")
     (auto simp: parse_latest_message_def Let_def)

theorem missing_id_item_still_emitted_witness:
  "resp_message_containers (sample_response None) \<noteq> []
   \<and> (\<exists>item. parse_latest_message path_after_host sample_digest (sample_response None)
                = Inr [item]
          \<and> item ''id'' = Some PNone)"
proof -
  have h: "resp_message_containers (sample_response None) \<noteq> []"
    by (simp add: sample_response_def)
  have n: "generate_item_id path_after_host sample_digest (resp_url (sample_response None))
             (mc_timestamp (last (resp_message_containers (sample_response None)))) = None"
    by (simp add: sample_response_def generate_item_id_def)
  show ?thesis
    using h n missing_id_item_still_emitted[OF h, of path_after_host sample_digest]
    by auto
qed

text \<open>
  The claim C3 as stated fails: on the sample page without post timestamp no ID can be
  derived, and the extractor does not emit the empty sequence.
\<close>

theorem missing_id_item_not_dropped:
  "generate_item_id path_after_host sample_digest (resp_url (sample_response None))
     (mc_timestamp (last (resp_message_containers (sample_response None)))) = None
   \<and> parse_latest_message path_after_host sample_digest (sample_response None) \<noteq> Inr []"
  by (simp add: sample_response_def generate_item_id_def parse_latest_message_def Let_def)

section \<open>Properties of the sentiment tagging stage\<close>

text \<open>
  What the stage does when the classifier raises on a text: \<^verbatim>\<open>analyze_sentiment\<close>
  returns the all-zero counts, and \<^verbatim>\<open>process_item\<close> returns the item with these
  counts and the processing time. No exception leaves the stage, so the items after it
  are processed.
\<close>

lemma classifier_failure_all_zero:
  "sentiment text = Inl e \<Longrightarrow>
   analyze_sentiment sentiment text =
     [''positive'' \<mapsto> PInt 0, ''negative'' \<mapsto> PInt 0, ''neutral'' \<mapsto> PInt 0]
   \<and> (item ''message_content'' = Some text \<longrightarrow>
        FetchMessagePipeline_process_item sentiment now item =
          item ++ [''positive'' \<mapsto> PInt 0, ''negative'' \<mapsto> PInt 0, ''neutral'' \<mapsto> PInt 0,
                   ''processed_at'' \<mapsto> PStr now])"
  by (simp add: analyze_sentiment_def FetchMessagePipeline_process_item_def)

text \<open>
  In every item the stage produces from an item holding a message content, each of the
  three counts is 0 or 1; exactly one of them is 1 when the classifier returns a label
  (whatever the label), and all three are 0 when the classifier raises.
\<close>

lemma counts_one_hot_or_zero:
  "item ''message_content'' = Some text \<Longrightarrow>
   \<exists>p n u. FetchMessagePipeline_process_item sentiment now item ''positive'' = Some (PInt p)
     \<and> FetchMessagePipeline_process_item sentiment now item ''negative'' = Some (PInt n)
     \<and> FetchMessagePipeline_process_item sentiment now item ''neutral'' = Some (PInt u)
     \<and> p \<in> {0, 1} \<and> n \<in> {0, 1} \<and> u \<in> {0, 1}
     \<and> p + n + u = (case sentiment text of Inl e \<Rightarrow> 0 | Inr sentiment_label \<Rightarrow> 1)"
  by (auto simp: analyze_sentiment_def FetchMessagePipeline_process_item_def Let_def
      map_add_def split: sum.splits)

lemma labelled_text_one_hot_example:
  "FetchMessagePipeline_process_item sample_classifier ''2024-05-01T10:00:05''
     [''id'' \<mapsto> PStr ''ab'', ''message_content'' \<mapsto> PStr ''hay qua''] ''positive'' = Some (PInt 1)
   \<and> FetchMessagePipeline_process_item sample_classifier ''2024-05-01T10:00:05''
     [''id'' \<mapsto> PStr ''ab'', ''message_content'' \<mapsto> PStr ''hay qua''] ''negative'' = Some (PInt 0)
   \<and> FetchMessagePipeline_process_item sample_classifier ''2024-05-01T10:00:05''
     [''id'' \<mapsto> PStr ''ab'', ''message_content'' \<mapsto> PStr ''hay qua''] ''neutral'' = Some (PInt 0)"
  by (simp add: analyze_sentiment_def FetchMessagePipeline_process_item_def sample_classifier_def)

text \<open>
  Claim C1 asks that a text on which the classifier raises be tagged with the all-neutral
  counts \<^verbatim>\<open>{positive: 0, negative: 0, neutral: 1}\<close>, and that the stage go on. The
  stage does go on, but the counts it returns are all zero: the \<^verbatim>\<open>except\<close> branch
  of \<^verbatim>\<open>analyze_sentiment\<close> repeats the initial counts, where every other outcome
  that is neither positive nor negative is counted neutral.
\<close>

theorem classifier_failure_not_neutral:
  "analyze_sentiment failing_classifier (PStr ''hay qua'') =
     [''positive'' \<mapsto> PInt 0, ''negative'' \<mapsto> PInt 0, ''neutral'' \<mapsto> PInt 0]
   \<and> analyze_sentiment failing_classifier (PStr ''hay qua'') ''neutral'' \<noteq> Some (PInt 1)"
  by (simp add: analyze_sentiment_def failing_classifier_def)

text \<open>
  Claim C2 asks that exactly one of the three counts of every produced record be 1. On a
  text on which the classifier raises, the three counts of the produced item are all 0.
\<close>

theorem counts_sum_zero_on_failure:
  "FetchMessagePipeline_process_item failing_classifier ''2024-05-01T10:00:05''
     [''id'' \<mapsto> PStr ''ab'', ''message_content'' \<mapsto> PStr ''hay qua''] ''positive'' = Some (PInt 0)
   \<and> FetchMessagePipeline_process_item failing_classifier ''2024-05-01T10:00:05''
     [''id'' \<mapsto> PStr ''ab'', ''message_content'' \<mapsto> PStr ''hay qua''] ''negative'' = Some (PInt 0)
   \<and> FetchMessagePipeline_process_item failing_classifier ''2024-05-01T10:00:05''
     [''id'' \<mapsto> PStr ''ab'', ''message_content'' \<mapsto> PStr ''hay qua''] ''neutral'' = Some (PInt 0)"
  by (simp add: analyze_sentiment_def FetchMessagePipeline_process_item_def failing_classifier_def)

section \<open>Properties of thread discovery\<close>

lemma thread_infos_ok:
  "\<forall>c\<in>set containers. truthy (tc_latest_link c) \<longrightarrow>
     (if truthy (tc_thread_date_str c)
      then \<exists>d. fromisoformat (replace_Z (the (tc_thread_date_str c))) = Inr d \<and> is_aware d = aw
      else \<not> aw) \<Longrightarrow>
   \<exists>threads. thread_infos urljoin fromisoformat base containers = Inr threads
     \<and> (\<forall>x\<in>set threads. is_aware (sort_key_of x) = aw)"
proof (induction containers)
  case Nil
  then show ?case by simp
next
  case (Cons c cs)
  then obtain threads where t: "thread_infos urljoin fromisoformat base cs = Inr threads"
    "\<forall>x\<in>set threads. is_aware (sort_key_of x) = aw"
    by auto
  show ?case
  proof (cases "truthy (tc_latest_link c)")
    case False
    then show ?thesis using t by simp
  next
    case True
    show ?thesis
    proof (cases "truthy (tc_thread_date_str c)")
      case d: True
      then obtain dt where "fromisoformat (replace_Z (the (tc_thread_date_str c))) = Inr dt"
        "is_aware dt = aw"
        using Cons.prems True by auto
      then show ?thesis using t True d by (simp add: sort_key_of_def)
    next
      case d: False
      then have "\<not> aw" using Cons.prems True by auto
      then show ?thesis using t True d by (simp add: sort_key_of_def datetime_min_def)
    qed
  qed
qed

lemma thread_infos_fail:
  "\<exists>c\<in>set containers. truthy (tc_latest_link c) \<and> truthy (tc_thread_date_str c)
      \<and> fromisoformat (replace_Z (the (tc_thread_date_str c))) = Inl e \<Longrightarrow>
   \<exists>e'. thread_infos urljoin fromisoformat base containers = Inl e'"
proof (induction containers)
  case Nil
  then show ?case by simp
next
  case (Cons c cs)
  show ?case
  proof (cases "truthy (tc_latest_link c) \<and> truthy (tc_thread_date_str c)
      \<and> fromisoformat (replace_Z (the (tc_thread_date_str c))) = Inl e")
    case True
    then show ?thesis by simp
  next
    case False
    then have "\<exists>e'. thread_infos urljoin fromisoformat base cs = Inl e'"
      using Cons by auto
    then show ?thesis by (auto split: sum.splits)
  qed
qed

lemma py_sorted_reverse_ok:
  assumes "\<forall>x\<in>set xs. is_aware (key x) = aw"
  shows "\<exists>ys. py_sorted_reverse key xs = Inr ys \<and> mset ys = mset xs
     \<and> sorted_wrt (\<lambda>a b. dt_rank (key a) \<ge> dt_rank (key b)) ys
     \<and> (\<forall>k. filter (\<lambda>x. dt_rank (key x) = k) ys = filter (\<lambda>x. dt_rank (key x) = k) xs)"
proof -
  let ?f = "\<lambda>x. dt_rank (key x)"
  let ?ys = "rev (sort_key ?f (rev xs))"
  have 1: "py_sorted_reverse key xs = Inr ?ys"
    using assms by (auto simp: py_sorted_reverse_def)
  have 2: "mset ?ys = mset xs" by simp
  have "sorted (map ?f (sort_key ?f (rev xs)))" by (rule sorted_sort_key)
  then have 3: "sorted_wrt (\<lambda>a b. ?f a \<ge> ?f b) ?ys"
    by (simp add: sorted_wrt_rev sorted_map)
  have 4: "filter (\<lambda>x. ?f x = k) ?ys = filter (\<lambda>x. ?f x = k) xs" for k
  proof -
    have "filter (\<lambda>x. ?f x = k) (sort_key ?f (rev xs)) = filter (\<lambda>x. ?f x = k) (rev xs)"
      by (rule sort_key_stable)
    then show ?thesis by (simp add: rev_filter[symmetric] del: rev_filter)
  qed
  show ?thesis using 1 2 3 4 by blast
qed

text \<open>
  Claim C4, as the code has it. When every thread-start date of the listing is absent
  (\<^verbatim>\<open>None\<close> or empty) or parses, and the sort keys are all of one kind (all naive,
  or all aware with no date absent), \<^verbatim>\<open>parse\<close> emits one request per entry that
  has a latest-reply link, sorted by timestamp, newest first, entries of equal timestamp
  in listing order; an entry without date gets \<^verbatim>\<open>datetime.min\<close> as key, which no
  other key is below, so it sorts last. When a date string is present and does not parse,
  \<^verbatim>\<open>parse\<close> raises and emits nothing.
\<close>

theorem parse_sorted_newest_first:
  "((\<exists>aw. \<forall>c\<in>set containers. truthy (tc_latest_link c) \<longrightarrow>
        (if truthy (tc_thread_date_str c)
         then \<exists>d. fromisoformat (replace_Z (the (tc_thread_date_str c))) = Inr d
                \<and> is_aware d = aw
         else \<not> aw)) \<longrightarrow>
    (\<exists>threads sorted_threads.
        thread_infos urljoin fromisoformat base containers = Inr threads
      \<and> parse urljoin fromisoformat base containers = Inr (map request_for sorted_threads)
      \<and> mset sorted_threads = mset threads
      \<and> sorted_wrt (\<lambda>a b. dt_rank (sort_key_of a) \<ge> dt_rank (sort_key_of b)) sorted_threads
      \<and> (\<forall>k. filter (\<lambda>x. dt_rank (sort_key_of x) = k) sorted_threads
             = filter (\<lambda>x. dt_rank (sort_key_of x) = k) threads)
      \<and> (\<forall>a\<in>set sorted_threads. ti_timestamp a = None \<longrightarrow>
            sort_key_of a = datetime_min
          \<and> (\<forall>b\<in>set sorted_threads. dt_rank (sort_key_of a) \<le> dt_rank (sort_key_of b)))))
   \<and> ((\<exists>c\<in>set containers. truthy (tc_latest_link c) \<and> truthy (tc_thread_date_str c)
          \<and> fromisoformat (replace_Z (the (tc_thread_date_str c))) = Inl e) \<longrightarrow>
       (\<exists>e'. parse urljoin fromisoformat base containers = Inl e'))"
proof (intro conjI impI)
  assume "\<exists>aw. \<forall>c\<in>set containers. truthy (tc_latest_link c) \<longrightarrow>
        (if truthy (tc_thread_date_str c)
         then \<exists>d. fromisoformat (replace_Z (the (tc_thread_date_str c))) = Inr d
                \<and> is_aware d = aw
         else \<not> aw)"
  then obtain aw where h: "\<forall>c\<in>set containers. truthy (tc_latest_link c) \<longrightarrow>
        (if truthy (tc_thread_date_str c)
         then \<exists>d. fromisoformat (replace_Z (the (tc_thread_date_str c))) = Inr d
                \<and> is_aware d = aw
         else \<not> aw)"
    by blast
  obtain threads where t: "thread_infos urljoin fromisoformat base containers = Inr threads"
    and k: "\<forall>x\<in>set threads. is_aware (sort_key_of x) = aw"
    using thread_infos_ok[OF h] by blast
  obtain ys where y: "py_sorted_reverse sort_key_of threads = Inr ys"
    and m: "mset ys = mset threads"
    and s: "sorted_wrt (\<lambda>a b. dt_rank (sort_key_of a) \<ge> dt_rank (sort_key_of b)) ys"
    and f: "\<forall>k. filter (\<lambda>x. dt_rank (sort_key_of x) = k) ys
             = filter (\<lambda>x. dt_rank (sort_key_of x) = k) threads"
    using py_sorted_reverse_ok[of threads sort_key_of aw, OF k] by blast
  have p: "parse urljoin fromisoformat base containers = Inr (map request_for ys)"
    by (simp add: parse_def t y)
  have st: "set ys = set threads" using m by (rule mset_eq_setD)
  have low: "sort_key_of a = datetime_min
      \<and> (\<forall>b\<in>set ys. dt_rank (sort_key_of a) \<le> dt_rank (sort_key_of b))"
    if a: "a \<in> set ys" "ti_timestamp a = None" for a
  proof -
    have ka: "sort_key_of a = datetime_min" using a by (simp add: sort_key_of_def)
    then have "\<not> aw" using k a st by (auto simp: datetime_min_def)
    then have "\<forall>b\<in>set ys. \<not> is_aware (sort_key_of b)" using k st by auto
    then have "\<forall>b\<in>set ys. 0 \<le> dt_rank (sort_key_of b)"
      by (metis dt_rank.simps(1) is_aware.elims(3) of_nat_0_le_iff)
    then show ?thesis using ka by (simp add: datetime_min_def)
  qed
  show "\<exists>threads sorted_threads.
        thread_infos urljoin fromisoformat base containers = Inr threads
      \<and> parse urljoin fromisoformat base containers = Inr (map request_for sorted_threads)
      \<and> mset sorted_threads = mset threads
      \<and> sorted_wrt (\<lambda>a b. dt_rank (sort_key_of a) \<ge> dt_rank (sort_key_of b)) sorted_threads
      \<and> (\<forall>k. filter (\<lambda>x. dt_rank (sort_key_of x) = k) sorted_threads
             = filter (\<lambda>x. dt_rank (sort_key_of x) = k) threads)
      \<and> (\<forall>a\<in>set sorted_threads. ti_timestamp a = None \<longrightarrow>
            sort_key_of a = datetime_min
          \<and> (\<forall>b\<in>set sorted_threads. dt_rank (sort_key_of a) \<le> dt_rank (sort_key_of b)))"
    using t p m s f low by blast
next
  assume "\<exists>c\<in>set containers. truthy (tc_latest_link c) \<and> truthy (tc_thread_date_str c)
          \<and> fromisoformat (replace_Z (the (tc_thread_date_str c))) = Inl e"
  then obtain e' where "thread_infos urljoin fromisoformat base containers = Inl e'"
    using thread_infos_fail by blast
  then show "\<exists>e'. parse urljoin fromisoformat base containers = Inl e'"
    by (simp add: parse_def)
qed

theorem parse_sorted_newest_first_witness:
  "(\<exists>sorted_threads.
         parse sample_urljoin sample_fromisoformat ''https://voz.vn/whats-new''
           (sample_listing None) = Inr (map request_for sorted_threads)
       \<and> sorted_wrt (\<lambda>a b. dt_rank (sort_key_of a) \<ge> dt_rank (sort_key_of b)) sorted_threads)
   \<and> (\<exists>e'. parse sample_urljoin sample_fromisoformat ''https://voz.vn/whats-new''
              (sample_listing (Some ''yesterday'')) = Inl e')"
proof -
  have h1: "\<forall>c\<in>set (sample_listing None). truthy (tc_latest_link c) \<longrightarrow>
        (if truthy (tc_thread_date_str c)
         then \<exists>d. sample_fromisoformat (replace_Z (the (tc_thread_date_str c))) = Inr d
                \<and> is_aware d = False
         else \<not> False)"
    by (simp add: sample_listing_def sample_entry_def sample_fromisoformat_def replace_Z_def)
  have h2: "\<exists>c\<in>set (sample_listing (Some ''yesterday'')).
        truthy (tc_latest_link c) \<and> truthy (tc_thread_date_str c)
      \<and> sample_fromisoformat (replace_Z (the (tc_thread_date_str c))) = Inl ValueError"
    by (simp add: sample_listing_def sample_entry_def sample_fromisoformat_def replace_Z_def)
  have a: "\<exists>sorted_threads.
         parse sample_urljoin sample_fromisoformat ''https://voz.vn/whats-new''
           (sample_listing None) = Inr (map request_for sorted_threads)
       \<and> sorted_wrt (\<lambda>a b. dt_rank (sort_key_of a) \<ge> dt_rank (sort_key_of b)) sorted_threads"
    using h1 parse_sorted_newest_first[where containers = "sample_listing None"
        and fromisoformat = sample_fromisoformat and urljoin = sample_urljoin
        and base = "''https://voz.vn/whats-new''"]
    by blast
  have b: "\<exists>e'. parse sample_urljoin sample_fromisoformat ''https://voz.vn/whats-new''
              (sample_listing (Some ''yesterday'')) = Inl e'"
    using h2 parse_sorted_newest_first[where containers = "sample_listing (Some ''yesterday'')"
        and fromisoformat = sample_fromisoformat and urljoin = sample_urljoin
        and base = "''https://voz.vn/whats-new''" and e = ValueError]
    by blast
  show ?thesis using a b by blast
qed

text \<open>The order of the example of the claim, with the third date absent:
  \<open>[T2, T1, T3]\<close>.\<close>

lemma sample_listing_order:
  "parse sample_urljoin sample_fromisoformat ''https://voz.vn/whats-new'' (sample_listing None)
   = Inr (map request_for
       [sample_thread ''t2.2'' (Some ''2024-05-01T12:00:00'') (Some (Naive 12)),
        sample_thread ''t1.1'' (Some ''2024-05-01T10:00:00'') (Some (Naive 10)),
        sample_thread ''t3.3'' None None])"
  by (simp add: parse_def sample_listing_def sample_entry_def sample_thread_def
      sample_urljoin_def sample_fromisoformat_def replace_Z_def py_sorted_reverse_def
      sort_key_of_def datetime_min_def)

text \<open>
  The claim C4 as stated fails: with the third date unparseable, discovery aborts with
  \<^verbatim>\<open>ValueError\<close> instead of emitting \<open>[T2, T1, T3]\<close>.
\<close>

theorem parse_unparseable_date_raises:
  "parse sample_urljoin sample_fromisoformat ''https://voz.vn/whats-new''
     (sample_listing (Some ''yesterday'')) = Inl ValueError"
  by (simp add: parse_def sample_listing_def sample_entry_def
      sample_fromisoformat_def replace_Z_def)

section \<open>Properties of the storage gateway\<close>

lemma row_with_id_upsert_same:
  "row_with_id (col_id new) (upsert new tbl) =
     Some (case row_with_id (col_id new) tbl of
             None \<Rightarrow> new
           | Some old \<Rightarrow> old\<lparr>col_positive_count := col_positive_count new,
                              col_negative_count := col_negative_count new,
                              col_neutral_count := col_neutral_count new,
                              col_analyzed_at := col_analyzed_at new\<rparr>)"
  by (induction tbl) (auto simp: row_with_id_def)

lemma row_with_id_upsert_other:
  "j \<noteq> col_id new \<Longrightarrow> row_with_id j (upsert new tbl) = row_with_id j tbl"
  by (induction tbl) (auto simp: row_with_id_def)

lemma row_with_id_col_id: "row_with_id i tbl = Some r \<Longrightarrow> col_id r = i"
  by (induction tbl) (auto simp: row_with_id_def split: if_splits)

lemma process_item_stores:
  assumes "\<not> execute_fails f" "\<not> commit_fails f" "item_row item = Some new" "col_id new \<noteq> PNone"
  shows "SentimentAnalysisPipeline_process_item f (Some tbl) item = Inr (Some (upsert new tbl), item)"
  using assms by (simp add: SentimentAnalysisPipeline_process_item_def execute_upsert_def)

lemma sample_item_keys: "list_all (\<lambda>k. sample_item i c p n u at k \<noteq> None) insert_keys"
  by (simp add: sample_item_def insert_keys_def)

text \<open>
  Claim C5. Two upserts of items with the same (non-null) \<^verbatim>\<open>id\<close>, both completing
  without a fault of the store: after the second, the row stored under that \<^verbatim>\<open>id\<close>
  has the content fields (thread title, thread date, latest poster, latest post time,
  message content, thread URL) it had after the first, which are those of the first item
  when the first upsert inserted the row; its three counts and \<^verbatim>\<open>analyzed_at\<close> are
  those of the second item. The rows stored under other ids are untouched.
\<close>

theorem upsert_twice_keeps_content:
  assumes "\<not> execute_fails f1" "\<not> commit_fails f1" "\<not> execute_fails f2" "\<not> commit_fails f2"
    and "list_all (\<lambda>k. item1 k \<noteq> None) insert_keys"
    and "list_all (\<lambda>k. item2 k \<noteq> None) insert_keys"
    and "item2 ''id'' = item1 ''id''" and "item1 ''id'' \<noteq> Some PNone"
  shows "\<exists>tbl1 tbl2 row1 row2.
      SentimentAnalysisPipeline_process_item f1 (Some tbl) item1 = Inr (Some tbl1, item1)
    \<and> SentimentAnalysisPipeline_process_item f2 (Some tbl1) item2 = Inr (Some tbl2, item2)
    \<and> row_with_id (the (item1 ''id'')) tbl1 = Some row1
    \<and> row_with_id (the (item1 ''id'')) tbl2 = Some row2
    \<and> (row_with_id (the (item1 ''id'')) tbl = None \<longrightarrow>
          col_thread_title row1 = the (item1 ''thread_title'')
        \<and> col_thread_date row1 = the (item1 ''thread_date'')
        \<and> col_latest_poster row1 = the (item1 ''latest_poster'')
        \<and> col_latest_post_time row1 = the (item1 ''latest_post_time'')
        \<and> col_message_content row1 = the (item1 ''message_content'')
        \<and> col_thread_url row1 = the (item1 ''thread_url''))
    \<and> col_id row2 = col_id row1
    \<and> col_thread_title row2 = col_thread_title row1
    \<and> col_thread_date row2 = col_thread_date row1
    \<and> col_latest_poster row2 = col_latest_poster row1
    \<and> col_latest_post_time row2 = col_latest_post_time row1
    \<and> col_message_content row2 = col_message_content row1
    \<and> col_thread_url row2 = col_thread_url row1
    \<and> col_positive_count row2 = the (item2 ''positive'')
    \<and> col_negative_count row2 = the (item2 ''negative'')
    \<and> col_neutral_count row2 = the (item2 ''neutral'')
    \<and> col_analyzed_at row2 = the (item2 ''processed_at'')
    \<and> (\<forall>j. j \<noteq> the (item1 ''id'') \<longrightarrow> row_with_id j tbl2 = row_with_id j tbl)"
proof -
  obtain r1 where r1: "item_row item1 = Some r1" using assms(5) by (simp add: item_row_def)
  obtain r2 where r2: "item_row item2 = Some r2" using assms(6) by (simp add: item_row_def)
  have "item1 ''id'' \<noteq> None" using assms(5) by (simp add: insert_keys_def)
  then obtain i where i: "item1 ''id'' = Some i" "i \<noteq> PNone" using assms(8) by auto
  have id1: "col_id r1 = i" using r1 i assms(5) by (auto simp: item_row_def)
  have id2: "col_id r2 = i" using r2 i assms(6,7) by (auto simp: item_row_def)
  let ?t1 = "upsert r1 tbl"
  let ?t2 = "upsert r2 ?t1"
  have p1: "SentimentAnalysisPipeline_process_item f1 (Some tbl) item1 = Inr (Some ?t1, item1)"
    using process_item_stores[OF assms(1,2) r1] id1 i by simp
  have p2: "SentimentAnalysisPipeline_process_item f2 (Some ?t1) item2 = Inr (Some ?t2, item2)"
    using process_item_stores[OF assms(3,4) r2] id2 i by simp
  obtain row1 where w1: "row_with_id i ?t1 = Some row1"
    using row_with_id_upsert_same[of r1 tbl] id1 by simp
  have w2: "row_with_id i ?t2 =
      Some (row1\<lparr>col_positive_count := col_positive_count r2,
                 col_negative_count := col_negative_count r2,
                 col_neutral_count := col_neutral_count r2,
                 col_analyzed_at := col_analyzed_at r2\<rparr>)"
    using row_with_id_upsert_same[of r2 ?t1] id2 w1 by simp
  have fresh: "row_with_id i tbl = None \<Longrightarrow> row1 = r1"
    using row_with_id_upsert_same[of r1 tbl] id1 w1 by simp
  have c1: "col_thread_title r1 = the (item1 ''thread_title'')"
    "col_thread_date r1 = the (item1 ''thread_date'')"
    "col_latest_poster r1 = the (item1 ''latest_poster'')"
    "col_latest_post_time r1 = the (item1 ''latest_post_time'')"
    "col_message_content r1 = the (item1 ''message_content'')"
    "col_thread_url r1 = the (item1 ''thread_url'')"
    using r1 by (auto simp: item_row_def split: if_splits)
  have c2: "col_positive_count r2 = the (item2 ''positive'')"
    "col_negative_count r2 = the (item2 ''negative'')"
    "col_neutral_count r2 = the (item2 ''neutral'')"
    "col_analyzed_at r2 = the (item2 ''processed_at'')"
    using r2 by (auto simp: item_row_def split: if_splits)
  have others: "\<forall>j. j \<noteq> i \<longrightarrow> row_with_id j ?t2 = row_with_id j tbl"
    using row_with_id_upsert_other[of _ r2 ?t1] row_with_id_upsert_other[of _ r1 tbl] id1 id2
    by simp
  show ?thesis
    apply (rule exI[of _ ?t1], rule exI[of _ ?t2], rule exI[of _ row1])
    apply (rule exI[of _ "row1\<lparr>col_positive_count := col_positive_count r2,
                 col_negative_count := col_negative_count r2,
                 col_neutral_count := col_neutral_count r2,
                 col_analyzed_at := col_analyzed_at r2\<rparr>"])
    using p1 p2 w1 w2 fresh c1 c2 others i by simp
qed

theorem upsert_twice_keeps_content_witness:
  "\<not> execute_fails no_faults \<and> \<not> commit_fails no_faults
   \<and> list_all (\<lambda>k. sample_item ''k1'' ''first text'' 1 0 0 ''2024-05-01T10:00:05'' k \<noteq> None)
        insert_keys
   \<and> list_all (\<lambda>k. sample_item ''k1'' ''second text'' 0 1 0 ''2024-05-01T11:00:05'' k \<noteq> None)
        insert_keys
   \<and> (\<exists>tbl1 tbl2 row2.
        SentimentAnalysisPipeline_process_item no_faults (Some [])
          (sample_item ''k1'' ''first text'' 1 0 0 ''2024-05-01T10:00:05'')
          = Inr (Some tbl1, sample_item ''k1'' ''first text'' 1 0 0 ''2024-05-01T10:00:05'')
      \<and> SentimentAnalysisPipeline_process_item no_faults (Some tbl1)
          (sample_item ''k1'' ''second text'' 0 1 0 ''2024-05-01T11:00:05'')
          = Inr (Some tbl2, sample_item ''k1'' ''second text'' 0 1 0 ''2024-05-01T11:00:05'')
      \<and> row_with_id (PStr ''k1'') tbl2 = Some row2
      \<and> col_message_content row2 = PStr ''first text''
      \<and> col_positive_count row2 = PInt 0
      \<and> col_negative_count row2 = PInt 1
      \<and> col_analyzed_at row2 = PStr ''2024-05-01T11:00:05'')"
proof -
  let ?i1 = "sample_item ''k1'' ''first text'' 1 0 0 ''2024-05-01T10:00:05''"
  let ?i2 = "sample_item ''k1'' ''second text'' 0 1 0 ''2024-05-01T11:00:05''"
  have f: "\<not> execute_fails no_faults" "\<not> commit_fails no_faults"
    by (simp_all add: no_faults_def)
  have k1: "list_all (\<lambda>k. ?i1 k \<noteq> None) insert_keys" by (rule sample_item_keys)
  have k2: "list_all (\<lambda>k. ?i2 k \<noteq> None) insert_keys" by (rule sample_item_keys)
  have e: "?i2 ''id'' = ?i1 ''id''" "?i1 ''id'' \<noteq> Some PNone"
    by (simp_all add: sample_item_def)
  have v: "the (?i1 ''id'') = PStr ''k1''" "the (?i1 ''message_content'') = PStr ''first text''"
    "the (?i2 ''positive'') = PInt 0" "the (?i2 ''negative'') = PInt 1"
    "the (?i2 ''processed_at'') = PStr ''2024-05-01T11:00:05''"
    by (simp_all add: sample_item_def)
  have n: "row_with_id (PStr ''k1'') [] = None" by (simp add: row_with_id_def)
  obtain tbl1 tbl2 row1 row2 where
      "SentimentAnalysisPipeline_process_item no_faults (Some []) ?i1 = Inr (Some tbl1, ?i1)"
      "SentimentAnalysisPipeline_process_item no_faults (Some tbl1) ?i2 = Inr (Some tbl2, ?i2)"
      "row_with_id (PStr ''k1'') tbl2 = Some row2"
      "col_message_content row2 = PStr ''first text''"
      "col_positive_count row2 = PInt 0"
      "col_negative_count row2 = PInt 1"
      "col_analyzed_at row2 = PStr ''2024-05-01T11:00:05''"
    using upsert_twice_keeps_content[OF f f k1 k2 e, of "[]"] unfolding v using n by auto
  then show ?thesis using f k1 k2 by blast
qed

text \<open>
  With a connection and a \<^verbatim>\<open>rollback\<close> that works, \<^verbatim>\<open>process_item\<close> recovers
  from every failure of the write: it returns the item, and the table is as before.
\<close>

lemma process_item_recovers:
  "item ''id'' \<noteq> None \<Longrightarrow> \<not> rollback_fails faults \<Longrightarrow>
   \<exists>tbl'. SentimentAnalysisPipeline_process_item faults (Some tbl) item = Inr (Some tbl', item)
     \<and> (execute_fails faults \<or> commit_fails faults \<or> item_row item = None
          \<or> item ''id'' = Some PNone \<longrightarrow> tbl' = tbl)"
  by (auto simp: SentimentAnalysisPipeline_process_item_def except_handler_def
      execute_upsert_def item_row_def split: option.splits sum.splits if_splits)

text \<open>
  Claim C9 asks that \<^verbatim>\<open>process_item\<close> return normally on every storage failure. The
  code misses two cases, both in its unguarded \<^verbatim>\<open>self.conn.rollback()\<close>: a pipeline
  whose constructor could not connect (the failure is swallowed there, \<^verbatim>\<open>conn\<close> is
  never set) raises \<^verbatim>\<open>AttributeError\<close> out of the handler, and a connection lost
  during \<^verbatim>\<open>execute\<close>, on which \<^verbatim>\<open>rollback\<close> raises in turn, raises that error.
\<close>

theorem process_item_without_connection_raises:
  "SentimentAnalysisPipeline_process_item no_faults
     (SentimentAnalysisPipeline_init (Inl DatabaseError))
     (sample_item ''k1'' ''first text'' 1 0 0 ''2024-05-01T10:00:05'') = Inl AttributeError
   \<and> SentimentAnalysisPipeline_process_item
       \<lparr>execute_fails = True, commit_fails = False, rollback_fails = True\<rparr>
       (SentimentAnalysisPipeline_init (Inr []))
       (sample_item ''k1'' ''first text'' 1 0 0 ''2024-05-01T10:00:05'') = Inl DatabaseError"
proof -
  have r: "item_row (sample_item ''k1'' ''first text'' 1 0 0 ''2024-05-01T10:00:05'') \<noteq> None"
    using sample_item_keys by (simp add: item_row_def)
  have i: "sample_item ''k1'' ''first text'' 1 0 0 ''2024-05-01T10:00:05'' ''id'' = Some (PStr ''k1'')"
    by (simp add: sample_item_def)
  show ?thesis
    using r i
    by (auto simp: SentimentAnalysisPipeline_process_item_def SentimentAnalysisPipeline_init_def
        except_handler_def)
qed

section \<open>Properties of the paginated messages endpoint\<close>

lemma order_by_desc_sorted:
  "sorted_wrt (\<lambda>a b. ts (col_analyzed_at a) \<ge> ts (col_analyzed_at b))
     (order_by_analyzed_at_desc ts rows)"
proof -
  have "sorted (map (\<lambda>r. ts (col_analyzed_at r)) (sort_key (\<lambda>r. ts (col_analyzed_at r)) rows))"
    by (rule sorted_sort_key)
  then show ?thesis
    by (simp add: order_by_analyzed_at_desc_def sorted_wrt_rev sorted_map)
qed

lemma set_order_by_desc: "set (order_by_analyzed_at_desc ts rows) = set rows"
  by (simp add: order_by_analyzed_at_desc_def)

lemma page_window_sorted:
  "sorted_wrt (\<lambda>a b. ts (m_analyzed_at a) \<ge> ts (m_analyzed_at b))
     (map select_message (take n (drop k (order_by_analyzed_at_desc ts rows))))"
proof -
  have "sorted_wrt (\<lambda>a b. ts (col_analyzed_at a) \<ge> ts (col_analyzed_at b))
     (take n (drop k (order_by_analyzed_at_desc ts rows)))"
    by (intro sorted_wrt_take sorted_wrt_drop order_by_desc_sorted)
  then show ?thesis by (simp add: sorted_wrt_map select_message_def)
qed

lemma page_window_subset:
  "set (take n (drop k (order_by_analyzed_at_desc ts rows))) \<subseteq> set rows"
  using set_take_subset set_drop_subset set_order_by_desc by (metis subset_trans)

text \<open>
  Claim C8, as the code has it. On a store that serves its table: a request whose
  \<^verbatim>\<open>limit\<close> lies outside \<open>[1, 100]\<close> or whose \<^verbatim>\<open>offset\<close> is negative is
  rejected with a validation error (the value is not clamped); a request within the
  bounds (and, when it filters by thread, on a table that has the column) is answered
  with a page of at most \<^verbatim>\<open>limit\<close> messages, ordered by \<^verbatim>\<open>analyzed_at\<close>
  descending, all of them rows matching the filter, whose \<^verbatim>\<open>total\<close> is the number of
  all rows matching the same filter, whatever \<^verbatim>\<open>limit\<close> and \<^verbatim>\<open>offset\<close> are. Every
  page the endpoint returns carries a \<^verbatim>\<open>limit\<close> in \<open>[1, 100]\<close> and an
  \<^verbatim>\<open>offset\<close> that is not negative.
\<close>

theorem get_messages_bounded_page:
  "(lim < 1 \<or> 100 < lim \<or> off < 0 \<longrightarrow>
      get_messages ts thread_id_of (Serving tbl) lim off thread_id = Inl RequestValidationError)
   \<and> (1 \<le> lim \<and> lim \<le> 100 \<and> 0 \<le> off \<and> off < 2 ^ 63
        \<and> (truthy thread_id \<longrightarrow> thread_id_of \<noteq> None) \<longrightarrow>
       (\<exists>pg. get_messages ts thread_id_of (Serving tbl) lim off thread_id = Inr pg
          \<and> length (page_messages pg) \<le> nat lim
          \<and> sorted_wrt (\<lambda>a b. ts (m_analyzed_at a) \<ge> ts (m_analyzed_at b)) (page_messages pg)
          \<and> (\<forall>m\<in>set (page_messages pg).
                \<exists>r\<in>set tbl. where_clause thread_id_of thread_id r \<and> m = select_message r)
          \<and> page_total pg = int (length (filter (where_clause thread_id_of thread_id) tbl))
          \<and> page_limit pg = lim \<and> page_offset pg = off))
   \<and> (get_messages ts thread_id_of conn lim off thread_id = Inr pg' \<longrightarrow>
        1 \<le> page_limit pg' \<and> page_limit pg' \<le> 100 \<and> 0 \<le> page_offset pg')"
proof (intro conjI impI)
  assume "lim < 1 \<or> 100 < lim \<or> off < 0"
  then show "get_messages ts thread_id_of (Serving tbl) lim off thread_id
      = Inl RequestValidationError"
    by (simp add: get_messages_def)
next
  assume a: "1 \<le> lim \<and> lim \<le> 100 \<and> 0 \<le> off \<and> off < 2 ^ 63
        \<and> (truthy thread_id \<longrightarrow> thread_id_of \<noteq> None)"
  let ?matching = "filter (where_clause thread_id_of thread_id) tbl"
  let ?rows = "take (nat lim) (drop (nat off) (order_by_analyzed_at_desc ts ?matching))"
  let ?pg = "\<lparr>page_messages = map select_message ?rows,
              page_total = int (length ?matching), page_limit = lim, page_offset = off\<rparr>"
  have big: "lim < (2::int) ^ 63" using a by simp
  have g: "get_messages ts thread_id_of (Serving tbl) lim off thread_id = Inr ?pg"
    using a big by (auto simp: get_messages_def get_messages_with_sentiment_def Let_def)
  have l: "length (page_messages ?pg) \<le> nat lim" by simp
  have s: "sorted_wrt (\<lambda>a b. ts (m_analyzed_at a) \<ge> ts (m_analyzed_at b)) (page_messages ?pg)"
    using page_window_sorted by simp
  have "set ?rows \<subseteq> set ?matching" by (rule page_window_subset)
  then have m: "\<forall>m\<in>set (page_messages ?pg).
      \<exists>r\<in>set tbl. where_clause thread_id_of thread_id r \<and> m = select_message r"
    by auto
  show "\<exists>pg. get_messages ts thread_id_of (Serving tbl) lim off thread_id = Inr pg
          \<and> length (page_messages pg) \<le> nat lim
          \<and> sorted_wrt (\<lambda>a b. ts (m_analyzed_at a) \<ge> ts (m_analyzed_at b)) (page_messages pg)
          \<and> (\<forall>m\<in>set (page_messages pg).
                \<exists>r\<in>set tbl. where_clause thread_id_of thread_id r \<and> m = select_message r)
          \<and> page_total pg = int (length (filter (where_clause thread_id_of thread_id) tbl))
          \<and> page_limit pg = lim \<and> page_offset pg = off"
    using g l s m by (intro exI[of _ ?pg]) simp
next
  assume "get_messages ts thread_id_of conn lim off thread_id = Inr pg'"
  then show "1 \<le> page_limit pg'" "page_limit pg' \<le> 100" "0 \<le> page_offset pg'"
    by (auto simp: get_messages_def get_messages_with_sentiment_def Let_def
        split: if_splits database.splits)
qed

theorem get_messages_bounded_page_witness:
  "((1::int) \<le> 2 \<and> (2::int) \<le> 100 \<and> (0::int) \<le> 0 \<and> (0::int) < 2 ^ 63)
   \<and> (\<exists>pg. get_messages sample_ts None (Serving sample_table) 2 0 None = Inr pg
          \<and> length (page_messages pg) \<le> 2
          \<and> sorted_wrt (\<lambda>a b. sample_ts (m_analyzed_at a) \<ge> sample_ts (m_analyzed_at b))
               (page_messages pg)
          \<and> page_total pg = 3)
   \<and> get_messages sample_ts None (Serving sample_table) 0 0 None = Inl RequestValidationError"
proof -
  have h: "(1::int) \<le> 2 \<and> (2::int) \<le> 100 \<and> (0::int) \<le> 0 \<and> (0::int) < 2 ^ 63
      \<and> (truthy None \<longrightarrow> (None :: (row \<Rightarrow> pyval) option) \<noteq> None)"
    by simp
  have n: "int (length (filter (where_clause None None) sample_table)) = 3"
    by (simp add: where_clause_def sample_table_def)
  have a: "\<exists>pg. get_messages sample_ts None (Serving sample_table) 2 0 None = Inr pg
          \<and> length (page_messages pg) \<le> 2
          \<and> sorted_wrt (\<lambda>a b. sample_ts (m_analyzed_at a) \<ge> sample_ts (m_analyzed_at b))
               (page_messages pg)
          \<and> page_total pg = 3"
    using h n get_messages_bounded_page[where lim = 2 and off = 0 and thread_id = None
        and thread_id_of = None and tbl = sample_table and ts = sample_ts
        and conn = ConnectFails
        and pg' = "\<lparr>page_messages = [], page_total = 0, page_limit = 1, page_offset = 0\<rparr>"]
    by auto
  have b: "get_messages sample_ts None (Serving sample_table) 0 0 None
      = Inl RequestValidationError"
    using get_messages_bounded_page[where lim = 0 and off = 0 and thread_id = None
        and thread_id_of = None and tbl = sample_table and ts = sample_ts
        and conn = ConnectFails
        and pg' = "\<lparr>page_messages = [], page_total = 0, page_limit = 1, page_offset = 0\<rparr>"]
    by simp
  show ?thesis using a b by simp
qed

text \<open>
  The claim C8 as stated fails: a \<^verbatim>\<open>limit\<close> of 500 is not clamped to 100, the
  request is refused.
\<close>

theorem get_messages_limit_not_clamped:
  "get_messages sample_ts None (Serving sample_table) 500 0 None = Inl RequestValidationError
   \<and> get_messages sample_ts None (Serving sample_table) 500 0 None
       \<noteq> get_messages sample_ts None (Serving sample_table) 100 0 None"
  by (simp add: get_messages_def get_messages_with_sentiment_def Let_def)

end
